theory Spec2Isabelle
  imports Complex_Main "HOL-Library.Multiset"
begin

section \<open>Data model\<close>

text \<open>
  Weights are times or sample counts (glossary of the specification): finite and never
  negative. They are modelled as natural numbers; the rounding of JavaScript's doubles is
  not modelled.
\<close>

type_synonym weight = nat

text \<open>
  A frame is identified by its \<open>key\<close>, \<open>name\<close> and \<open>file\<close> (here
  \<open>filename\<close>); a \<open>Frame\<close> object of a profile carries, in addition, the weights
  accumulated for it in that profile (\<open>frame.getSelfWeight()\<close>,
  \<open>frame.getTotalWeight()\<close>).
\<close>

record FrameInfo =
  key :: string
  name :: string
  filename :: "string option"

record Frame = FrameInfo +
  selfWeight :: weight
  totalWeight :: weight

abbreviation getSelfWeight :: "Frame \<Rightarrow> weight" where
  "getSelfWeight f \<equiv> selfWeight f"

abbreviation getTotalWeight :: "Frame \<Rightarrow> weight" where
  "getTotalWeight f \<equiv> totalWeight f"

text \<open>
  A call-stack sample: the stack, its frames listed from the root (outermost caller) to the
  leaf, and the weight of the sample.
\<close>

type_synonym 'f sample = "'f list \<times> weight"

text \<open>
  Modelled from the spec: the class \<open>Profile\<close> of \<open>lib/profile\<close> is not part of the
  sources at hand. A profile owns its ordered collection of weighted call-stack samples,
  the set of its \<open>Frame\<close> objects, and its precomputed total non-idle weight (section 3
  of the specification).
\<close>

record Profile =
  samples :: "FrameInfo sample list"
  frames :: "Frame list"
  totalNonIdleWeight :: weight

text \<open>
  Modelled from the spec: \<open>Profile.forEachFrame\<close> visits every \<open>Frame\<close> of the profile
  exactly once, in a fixed order.
\<close>

definition forEachFrame :: "Profile \<Rightarrow> Frame list" where
  "forEachFrame P = frames P"

text \<open>
  Modelled from the spec: \<open>Profile.getTotalNonIdleWeight\<close> returns the precomputed total
  non-idle weight.
\<close>

definition getTotalNonIdleWeight :: "Profile \<Rightarrow> weight" where
  "getTotalNonIdleWeight P = totalNonIdleWeight P"

text \<open>The identity of a \<open>Frame\<close> object: its key, name and file.\<close>

abbreviation frameInfo :: "Frame \<Rightarrow> FrameInfo" where
  "frameInfo f \<equiv> FrameInfo.truncate f"

text \<open>A frame for the examples: key and name \<open>s\<close>, no file.\<close>

definition frameNamed :: "string \<Rightarrow> FrameInfo" where
  "frameNamed s = \<lparr>key = s, name = s, filename = None\<rparr>"

section \<open>Building and deriving profiles\<close>

text \<open>
  Modelled from the spec: the distinct frames of a collection of samples, each once.
\<close>

definition stackFrames :: "'f sample list \<Rightarrow> 'f list" where
  "stackFrames S = remdups (concat (map fst S))"

text \<open>
  Modelled from the spec: the total weight accumulated for a frame, the weight of the
  samples whose stack holds the frame (a recursive frame counts once per sample).
\<close>

definition frameTotalWeight :: "'f sample list \<Rightarrow> 'f \<Rightarrow> weight" where
  "frameTotalWeight S f = sum_list (map snd (filter (\<lambda>s. f \<in> set (fst s)) S))"

text \<open>
  Modelled from the spec: the self weight accumulated for a frame, the weight of the
  samples whose stack ends in the frame.
\<close>

definition frameSelfWeight :: "'f sample list \<Rightarrow> 'f \<Rightarrow> weight" where
  "frameSelfWeight S f =
     sum_list (map snd (filter (\<lambda>s. fst s \<noteq> [] \<and> last (fst s) = f) S))"

text \<open>
  Modelled from the spec: the total non-idle weight, the sum of the weights of the
  non-idle samples; a sample is idle when its stack is empty.
\<close>

definition nonIdleWeight :: "'f sample list \<Rightarrow> weight" where
  "nonIdleWeight S = sum_list (map snd (filter (\<lambda>s. fst s \<noteq> []) S))"

text \<open>
  Modelled from the spec: the profile constructed from a collection of samples, with the
  \<open>Frame\<close> objects derived from the samples and the total non-idle weight precomputed.
\<close>

definition buildProfile :: "FrameInfo sample list \<Rightarrow> Profile" where
  "buildProfile S =
     \<lparr>samples = S,
      frames = map (\<lambda>fi. \<lparr>key = key fi, name = name fi, filename = filename fi,
                           selfWeight = frameSelfWeight S fi,
                           totalWeight = frameTotalWeight S fi\<rparr>)
                   (stackFrames S),
      totalNonIdleWeight = nonIdleWeight S\<rparr>"

subsection \<open>The grouped call tree\<close>

text \<open>
  Modelled from the spec: a node of the call tree holds a frame, the total weight of the
  samples that pass through it, and its children. In the grouped tree the calls of one
  frame at one position (under one parent) are merged into one node whose weight is their
  sum.
\<close>

datatype 'f CallTreeNode =
  CallTreeNode (nodeFrame: 'f) (nodeTotalWeight: weight) (children: "'f CallTreeNode list")

text \<open>
  Modelled from the spec: adding one sample to the grouped forest. The weight of the
  sample goes to the total weight of every node on its path.
\<close>

fun appendSample :: "'f list \<Rightarrow> weight \<Rightarrow> 'f CallTreeNode list \<Rightarrow> 'f CallTreeNode list" where
  "appendSample [] w forest = forest"
| "appendSample (f # stack) w [] = [CallTreeNode f w (appendSample stack w [])]"
| "appendSample (f # stack) w (CallTreeNode g tw cs # forest) =
     (if g = f then CallTreeNode g (tw + w) (appendSample stack w cs) # forest
      else CallTreeNode g tw cs # appendSample (f # stack) w forest)"

text \<open>
  Modelled from the spec: the grouped call tree of a collection of samples, added in order.
\<close>

definition groupedCalltree :: "'f sample list \<Rightarrow> 'f CallTreeNode list" where
  "groupedCalltree S = foldl (\<lambda>forest s. appendSample (fst s) (snd s) forest) [] S"

text \<open>The frame and the total weight of a node.\<close>

abbreviation rootInfo :: "'f CallTreeNode \<Rightarrow> 'f \<times> weight" where
  "rootInfo n \<equiv> (nodeFrame n, nodeTotalWeight n)"

text \<open>
  Modelled from the spec: a call-tree node as \<open>forEachCallGrouped\<close> hands it to its
  visitor: a frame, a start offset, a duration (weight) and a depth.
\<close>

record 'f Call =
  callFrame :: 'f
  callStart :: weight
  callWeight :: weight
  callDepth :: nat

text \<open>
  Modelled from the spec: the pre-order walk of a forest, parent before children; the
  nodes of one level tile from left to right from \<open>start\<close>.
\<close>

fun walk :: "weight \<Rightarrow> nat \<Rightarrow> 'f CallTreeNode list \<Rightarrow> 'f Call list" where
  "walk start depth [] = []"
| "walk start depth (CallTreeNode f tw cs # rest) =
     \<lparr>callFrame = f, callStart = start, callWeight = tw, callDepth = depth\<rparr>
       # walk start (Suc depth) cs @ walk (start + tw) depth rest"

text \<open>
  Modelled from the spec: \<open>Profile.forEachCallGrouped\<close> enumerates the nodes of the
  grouped call tree of the profile in pre-order; root-level nodes have depth 0.
\<close>

definition forEachCallGrouped :: "Profile \<Rightarrow> FrameInfo Call list" where
  "forEachCallGrouped P = walk 0 0 (groupedCalltree (samples P))"

text \<open>The root-level nodes among the enumerated calls, each with its frame and weight.\<close>

definition rootCalls :: "'f Call list \<Rightarrow> ('f \<times> weight) list" where
  "rootCalls calls = map (\<lambda>c. (callFrame c, callWeight c)) (filter (\<lambda>c. callDepth c = 0) calls)"

subsection \<open>Inverting around a frame\<close>

text \<open>
  Modelled from the spec: the inverted stacks that one call stack contributes to the
  profile inverted around \<open>f\<close>, one for every occurrence of \<open>f\<close>: the frame itself,
  then its caller, the caller's caller and so on up to the root of the sample.
  \<open>callerStacks f callers s\<close> walks the stack \<open>s\<close> from the root; \<open>callers\<close> are the
  frames already passed, the nearest first.
\<close>

fun callerStacks :: "'f \<Rightarrow> 'f list \<Rightarrow> 'f list \<Rightarrow> 'f list list" where
  "callerStacks f callers [] = []"
| "callerStacks f callers (g # rest) =
     (if g = f then [f # callers] else []) @ callerStacks f (g # callers) rest"

text \<open>
  Modelled from the spec: every occurrence of the frame in a call stack contributes its
  inverted stack, with the weight of the sample.
\<close>

definition invertSamples :: "'f sample list \<Rightarrow> 'f \<Rightarrow> 'f sample list" where
  "invertSamples S f =
     concat (map (\<lambda>s. map (\<lambda>st. (st, snd s)) (callerStacks f [] (fst s))) S)"

text \<open>
  Modelled from the spec: \<open>Profile.getInvertedProfileForCallersOf\<close> is not part of the
  sources at hand. It builds a new profile from the inverted stacks, with self and total
  weights recomputed for the inverted orientation.
\<close>

definition getInvertedProfileForCallersOf :: "Profile \<Rightarrow> Frame \<Rightarrow> Profile" where
  "getInvertedProfileForCallersOf P f = buildProfile (invertSamples (samples P) (frameInfo f))"

subsection \<open>Flattening recursion\<close>

text \<open>
  Modelled from the spec: a frame that recurs, directly or indirectly, along a stack is
  collapsed into its outermost occurrence: \<open>flattenStack seen s\<close> drops from \<open>s\<close>
  every frame already \<open>seen\<close> nearer to the root.
\<close>

fun flattenStack :: "'f list \<Rightarrow> 'f list \<Rightarrow> 'f list" where
  "flattenStack seen [] = []"
| "flattenStack seen (f # stack) =
     (if f \<in> set seen then flattenStack seen stack else f # flattenStack (f # seen) stack)"

text \<open>Modelled from the spec: every stack flattened; the weights of the samples stay.\<close>

definition flattenSamples :: "'f sample list \<Rightarrow> 'f sample list" where
  "flattenSamples S = map (\<lambda>s. (flattenStack [] (fst s), snd s)) S"

text \<open>
  Modelled from the spec: \<open>Profile.getProfileWithRecursionFlattened\<close> is not part of the
  sources at hand. The new profile has the flattened stacks and keeps the \<open>Frame\<close>
  objects of the profile, with their weights: the self weights of the collapsed
  occurrences of a frame stay with the frame, its total weight is that of its outermost
  occurrence (sections 4.1 and 4.3 of the specification).
\<close>

definition getProfileWithRecursionFlattened :: "Profile \<Rightarrow> Profile" where
  "getProfileWithRecursionFlattened P = P\<lparr>samples := flattenSamples (samples P)\<rparr>"

text \<open>
  Modelled from the spec: the finalized profiles are the profiles constructed from samples
  and the profiles derived from them.
\<close>

inductive finalized :: "Profile \<Rightarrow> bool" where
  built: "finalized (buildProfile S)"
| flattened: "finalized P \<Longrightarrow> finalized (getProfileWithRecursionFlattened P)"
| inverted: "finalized P \<Longrightarrow> finalized (getInvertedProfileForCallersOf P f)"

subsection \<open>Colour buckets\<close>

text \<open>
  Modelled from the spec: \<open>getFrameToColorBucket\<close> of \<open>store/getters\<close> is not part of
  the sources at hand. Each \<open>Frame\<close> of the profile gets a bucket of a palette of fixed
  size by a deterministic hash of its key; the hash and the size of the palette are
  parameters.
\<close>

definition getFrameToColorBucket ::
  "(string \<Rightarrow> nat) \<Rightarrow> nat \<Rightarrow> Profile \<Rightarrow> (Frame \<rightharpoonup> nat)" where
  "getFrameToColorBucket hash buckets P =
     map_of (map (\<lambda>f. (f, hash (key f) mod buckets)) (forEachFrame P))"

subsection \<open>Examples\<close>

text \<open>
  The examples of the specification: the stacks main, a, b (weight 40) and main, c, b
  (weight 60), with the \<open>Frame\<close> object of b; and the single stack main, a, a, b
  (weight 100).
\<close>

definition callersDemo :: Profile where
  "callersDemo =
     buildProfile
       [([frameNamed ''main'', frameNamed ''a'', frameNamed ''b''], 40),
        ([frameNamed ''main'', frameNamed ''c'', frameNamed ''b''], 60)]"

definition frameB :: Frame where
  "frameB =
     \<lparr>key = ''b'', name = ''b'', filename = None, selfWeight = 100, totalWeight = 100\<rparr>"

definition recursionDemo :: Profile where
  "recursionDemo =
     buildProfile
       [([frameNamed ''main'', frameNamed ''a'', frameNamed ''a'', frameNamed ''b''], 100)]"

text \<open>The \<open>Frame\<close> object of a in that profile, and the length of the key as hash.\<close>

definition frameA :: Frame where
  "frameA =
     \<lparr>key = ''a'', name = ''a'', filename = None, selfWeight = 0, totalWeight = 100\<rparr>"

definition keyLength :: "string \<Rightarrow> nat" where
  "keyLength k = length k"

text \<open>
  A profile with nested, repeated and idle samples: main has self weight 20 and total
  weight 50, the roots main and other weigh 50 each, the idle sample weighs 7.
\<close>

definition weightsDemo :: Profile where
  "weightsDemo =
     buildProfile
       [([frameNamed ''main'', frameNamed ''a''], 30), ([frameNamed ''main''], 20),
        ([frameNamed ''other''], 50), ([], 7)]"

definition mainFrame :: Frame where
  "mainFrame =
     \<lparr>key = ''main'', name = ''main'', filename = None, selfWeight = 20, totalWeight = 50\<rparr>"

section \<open>Memoised derivations (inverted-caller-flamegraph-view.tsx)\<close>

text \<open>
  What JavaScript's \<open>===\<close> compares in a field of an input object: the identity of an
  object, the value of a boolean.
\<close>

datatype fieldval = ObjectRef nat | BooleanVal bool

text \<open>
  Modelled from the spec: the comparison of two input objects, given by their fields,
  field by field and by identity.
\<close>

definition shallowEqual :: "(string \<times> fieldval) list \<Rightarrow> (string \<times> fieldval) list \<Rightarrow> bool" where
  "shallowEqual a b =
     (list_all (\<lambda>k. map_of a k = map_of b k) (map fst a)
      \<and> list_all (\<lambda>k. map_of a k = map_of b k) (map fst b))"

text \<open>
  Modelled from the spec: the single slot of the cache, the input and the result of the
  most recent computation; \<open>invocations\<close> counts the invocations of the wrapped function.
\<close>

record ('a, 'r) Memo =
  lastCall :: "('a \<times> 'r) option"
  invocations :: nat

text \<open>Modelled from the spec: the cache of a function just wrapped.\<close>

definition emptyMemo :: "('a, 'r) Memo" where
  "emptyMemo = \<lparr>lastCall = None, invocations = 0\<rparr>"

text \<open>
  Modelled from the spec: \<open>memoizeByShallowEquality\<close> of \<open>lib/utils\<close> is not part of
  the sources at hand. On a call the wrapped function compares the new input object with
  the kept one; when all fields agree it returns the kept result without invoking \<open>f\<close>,
  otherwise it invokes \<open>f\<close> and keeps the new input and result. \<open>fieldsOf\<close> lists the
  fields of an input object.
\<close>

definition memoizeByShallowEquality ::
  "('a \<Rightarrow> (string \<times> fieldval) list) \<Rightarrow> ('a \<Rightarrow> 'r) \<Rightarrow> ('a, 'r) Memo \<Rightarrow> 'a
     \<Rightarrow> 'r \<times> ('a, 'r) Memo" where
  "memoizeByShallowEquality fieldsOf f memo input =
     (let recompute = (let r = f input
                       in (r, \<lparr>lastCall = Some (input, r), invocations = invocations memo + 1\<rparr>))
      in case lastCall memo of
           None \<Rightarrow> recompute
         | Some (previous, result) \<Rightarrow>
             if shallowEqual (fieldsOf previous) (fieldsOf input) then (result, memo)
             else recompute)"

text \<open>
  An object on the heap: its identity and its content. The input object of
  \<open>getInvertedCallerProfile\<close> has the fields \<open>profile\<close>, \<open>frame\<close> and
  \<open>flattenRecursion\<close>.
\<close>

record 'a obj =
  address :: nat
  content :: 'a

datatype InvertedCallerProfileArgs =
  InvertedCallerProfileArgs (argProfile: "Profile obj") (argFrame: "Frame obj")
    (argFlattenRecursion: bool)

definition argFields :: "InvertedCallerProfileArgs \<Rightarrow> (string \<times> fieldval) list" where
  "argFields args =
     [(''profile'', ObjectRef (address (argProfile args))),
      (''frame'', ObjectRef (address (argFrame args))),
      (''flattenRecursion'', BooleanVal (argFlattenRecursion args))]"

text \<open>The function that \<open>getInvertedCallerProfile\<close> wraps, and the wrapped function.\<close>

definition computeInvertedCallerProfile ::
  "Profile \<Rightarrow> Frame \<Rightarrow> bool \<Rightarrow> Profile" where
  "computeInvertedCallerProfile profile frame flattenRecursion =
     (let p = getInvertedProfileForCallersOf profile frame
      in if flattenRecursion then getProfileWithRecursionFlattened p else p)"

definition getInvertedCallerProfile ::
  "(InvertedCallerProfileArgs, Profile) Memo \<Rightarrow> InvertedCallerProfileArgs
     \<Rightarrow> Profile \<times> (InvertedCallerProfileArgs, Profile) Memo" where
  "getInvertedCallerProfile =
     memoizeByShallowEquality argFields
       (\<lambda>args. computeInvertedCallerProfile (content (argProfile args))
                 (content (argFrame args)) (argFlattenRecursion args))"

text \<open>
  The function that \<open>getInvertedCallerFlamegraph\<close> wraps: the flamechart is built from
  the total weight and the grouped calls of the inverted profile and from the colour
  buckets. (\<open>Flamechart\<close> of \<open>lib/flamechart\<close> is not part of the sources at hand: the
  flamechart is represented by what its constructor receives, without \<open>formatValue\<close>.)
\<close>

record Flamechart =
  flamechartTotalWeight :: weight
  flamechartCalls :: "FrameInfo Call list"
  flamechartColorBuckets :: "Frame \<rightharpoonup> nat"

definition computeInvertedCallerFlamegraph ::
  "Profile \<Rightarrow> (Frame \<rightharpoonup> nat) \<Rightarrow> Flamechart" where
  "computeInvertedCallerFlamegraph invertedCallerProfile getColorBucketForFrame =
     \<lparr>flamechartTotalWeight = getTotalNonIdleWeight invertedCallerProfile,
      flamechartCalls = forEachCallGrouped invertedCallerProfile,
      flamechartColorBuckets = getColorBucketForFrame\<rparr>"

text \<open>
  Two input objects for \<open>getInvertedCallerProfile\<close>: the same profile and frame objects;
  and a second profile object, newly built, of the same content.
\<close>

definition demoFrame :: "Frame obj" where
  "demoFrame = \<lparr>address = 2, content = frameA\<rparr>"

definition demoArgs :: InvertedCallerProfileArgs where
  "demoArgs =
     InvertedCallerProfileArgs \<lparr>address = 1, content = recursionDemo\<rparr> demoFrame False"

definition demoArgsRebuilt :: InvertedCallerProfileArgs where
  "demoArgsRebuilt =
     InvertedCallerProfileArgs \<lparr>address = 3, content = recursionDemo\<rparr> demoFrame False"

section \<open>The frame table (profile-table-view.tsx)\<close>

datatype SortField = SYMBOL_NAME | SELF | TOTAL

datatype SortDirection = ASCENDING | DESCENDING

record SortMethod =
  field :: SortField
  direction :: SortDirection

text \<open>
  \<open>onSortClick\<close>: the value handed to \<open>setSortMethod\<close> when the header of column
  \<open>fld\<close> is clicked while \<open>sortMethod\<close> is active.
\<close>

definition onSortClick :: "SortMethod \<Rightarrow> SortField \<Rightarrow> SortMethod" where
  "onSortClick sortMethod fld =
     (if field sortMethod = fld then
        \<lparr>field = fld,
         direction = (if direction sortMethod = ASCENDING then DESCENDING else ASCENDING)\<rparr>
      else
        (case fld of
           SYMBOL_NAME \<Rightarrow> \<lparr>field = fld, direction = ASCENDING\<rparr>
         | SELF \<Rightarrow> \<lparr>field = fld, direction = DESCENDING\<rparr>
         | TOTAL \<Rightarrow> \<lparr>field = fld, direction = DESCENDING\<rparr>))"

text \<open>
  The sort keys of \<open>sortBy\<close> are of TypeScript type \<open>number | string\<close>.
  \<open>toLowerCase\<close> is JavaScript's \<open>String.prototype.toLowerCase\<close> on ASCII text.
\<close>

datatype sortkey = KeyNumber weight | KeyString string

definition toLowerCase :: "string \<Rightarrow> string" where
  "toLowerCase s =
     map (\<lambda>c. if 65 \<le> (of_char c :: nat) \<and> (of_char c :: nat) \<le> 90
               then char_of ((of_char c :: nat) + 32) else c) s"

text \<open>
  \<open>frameList\<close>: the rows of the table. \<open>sortBy\<close> (of \<open>lib/utils\<close>) is not part of
  the sources at hand and is a parameter here; it sorts the array in place, which the
  model renders as returning the sorted array.
\<close>

definition frameList ::
  "((Frame \<Rightarrow> sortkey) \<Rightarrow> Frame list \<Rightarrow> Frame list) \<Rightarrow> Profile \<Rightarrow> SortMethod
     \<Rightarrow> Frame list" where
  "frameList sortBy profile sortMethod =
     (let frameList = forEachFrame profile;
          frameList =
            (case field sortMethod of
               SYMBOL_NAME \<Rightarrow> sortBy (\<lambda>f. KeyString (toLowerCase (name f))) frameList
             | SELF \<Rightarrow> sortBy (\<lambda>f. KeyNumber (getSelfWeight f)) frameList
             | TOTAL \<Rightarrow> sortBy (\<lambda>f. KeyNumber (getTotalWeight f)) frameList)
      in if direction sortMethod = DESCENDING then rev frameList else frameList)"

text \<open>
  An instance of \<open>sortBy\<close> to run \<open>frameList\<close> with: a stable sort that orders by
  JavaScript's \<open><\<close> on the keys, numbers by value and (ASCII) strings by character code.
  Keys of different kinds never meet in \<open>frameList\<close>.
\<close>

fun str_less :: "string \<Rightarrow> string \<Rightarrow> bool" where
  "str_less [] [] = False"
| "str_less [] (y # ys) = True"
| "str_less (x # xs) [] = False"
| "str_less (x # xs) (y # ys) =
     ((of_char x :: nat) < of_char y \<or> (x = y \<and> str_less xs ys))"

fun key_less :: "sortkey \<Rightarrow> sortkey \<Rightarrow> bool" where
  "key_less (KeyNumber a) (KeyNumber b) = (a < b)"
| "key_less (KeyString a) (KeyString b) = str_less a b"
| "key_less _ _ = False"

fun insertBy :: "('a \<Rightarrow> sortkey) \<Rightarrow> 'a \<Rightarrow> 'a list \<Rightarrow> 'a list" where
  "insertBy k x [] = [x]"
| "insertBy k x (y # ys) =
     (if key_less (k y) (k x) then y # insertBy k x ys else x # y # ys)"

fun stableSortBy :: "('a \<Rightarrow> sortkey) \<Rightarrow> 'a list \<Rightarrow> 'a list" where
  "stableSortBy k [] = []"
| "stableSortBy k (x # xs) = insertBy k x (stableSortBy k xs)"

text \<open>A profile of three frames of self weights 5, 20 and 1, in this order.\<close>

definition tableDemo :: Profile where
  "tableDemo =
     \<lparr>samples = [([frameNamed ''x''], 5), ([frameNamed ''y''], 20), ([frameNamed ''z''], 1)],
      frames =
        [\<lparr>key = ''x'', name = ''x'', filename = None, selfWeight = 5, totalWeight = 5\<rparr>,
         \<lparr>key = ''y'', name = ''y'', filename = None, selfWeight = 20, totalWeight = 20\<rparr>,
         \<lparr>key = ''z'', name = ''z'', filename = None, selfWeight = 1, totalWeight = 1\<rparr>],
      totalNonIdleWeight = 26\<rparr>"

subsection \<open>A row of the table\<close>

text \<open>
  The value of a JavaScript arithmetic expression: a finite number, an infinity, or NaN.
  \<open>js_div\<close> is JavaScript's \<open>/\<close> on finite operands: a zero divisor raises nothing
  and yields NaN for a zero dividend, an infinity otherwise. (Rounding, overflow and the
  sign of zero are not modelled.)
\<close>

datatype jsnum = Finite real | PosInfinity | NegInfinity | NaN

definition js_div :: "real \<Rightarrow> real \<Rightarrow> jsnum" where
  "js_div x y =
     (if y \<noteq> 0 then Finite (x / y)
      else if x = 0 then NaN
      else if 0 < x then PosInfinity else NegInfinity)"

text \<open>
  \<open>ProfileTableRowView\<close>: the two percentages of a row, which the row hands to
  \<open>formatPercent\<close> and to \<open>HBarDisplay\<close> as they are.
\<close>

record ProfileTableRow =
  totalPerc :: jsnum
  selfPerc :: jsnum

definition ProfileTableRowView :: "Frame \<Rightarrow> Profile \<Rightarrow> ProfileTableRow" where
  "ProfileTableRowView frame profile =
     (let totalWeight = getTotalWeight frame;
          selfWeight = getSelfWeight frame;
          totalPerc = js_div (100.0 * real totalWeight) (real (getTotalNonIdleWeight profile));
          selfPerc = js_div (100.0 * real selfWeight) (real (getTotalNonIdleWeight profile))
      in \<lparr>totalPerc = totalPerc, selfPerc = selfPerc\<rparr>)"

text \<open>
  The profile without samples; a profile of one sample of weight zero, and its only frame.
\<close>

definition emptyProfile :: Profile where
  "emptyProfile = \<lparr>samples = [], frames = [], totalNonIdleWeight = 0\<rparr>"

definition zeroFrame :: Frame where
  "zeroFrame =
     \<lparr>key = ''main'', name = ''main'', filename = None, selfWeight = 0, totalWeight = 0\<rparr>"

definition zeroWeightDemo :: Profile where
  "zeroWeightDemo =
     \<lparr>samples = [([frameNamed ''main''], 0)], frames = [zeroFrame], totalNonIdleWeight = 0\<rparr>"

section \<open>The container views\<close>

text \<open>
  An error thrown by a view (\<open>throw new Error(message)\<close>) is the \<open>Inl\<close> result of the
  view's function.
\<close>

datatype Error = Error string

text \<open>
  A prop handed to a component: a callback, which takes an argument and may change the
  state of the store, or a plain value. A props object maps prop names to props; spreading
  objects one after the other into the props lets a later one override an earlier one
  (\<open>++\<close>).
\<close>

datatype ('v, 's) Prop = Callback "'v \<Rightarrow> 's \<Rightarrow> 's" | Value 'v

type_synonym ('v, 's) Props = "string \<rightharpoonup> ('v, 's) Prop"

text \<open>
  \<open>noop\<close> of \<open>lib/utils\<close> is not part of the sources at hand: by its name, the
  callback that does nothing.
\<close>

definition noop :: "'v \<Rightarrow> 's \<Rightarrow> 's" where
  "noop v s = s"

text \<open>
  What the views read: the active profile state handed down in their props, and the
  fields of the application state selected with \<open>useAppSelector\<close>. A missing profile,
  canvas or caller-callee state is \<open>None\<close>. \<open>invertedCallerFlamegraph\<close> is the view
  state of the flamechart, an object spread into the props of the wrapper.
\<close>

datatype GLCanvas = GLCanvas nat

record ('v, 's) CallerCalleeState =
  selectedFrame :: Frame
  invertedCallerFlamegraph :: "('v, 's) Props"

record ('v, 's) SandwichViewState =
  callerCallee :: "('v, 's) CallerCalleeState option"

record ('v, 's) ActiveProfileState =
  profile :: "Profile option"
  sandwichViewState :: "('v, 's) SandwichViewState"
  index :: nat

record AppState =
  flattenRecursion :: bool
  glCanvas :: "GLCanvas option"
  tableSortMethod :: SortMethod

text \<open>
  \<open>InvertedCallerFlamegraphView\<close> (inverted-caller-flamegraph-view.tsx): the three
  checks in the order of the source, then the props of \<open>FlamechartWrapper\<close>. The canvas
  stands for the canvas context and the renderer made from it, the colour buckets for the
  colour functions made from them. \<open>otherProps\<close> holds what is spread into the props:
  the setters of \<open>useFlamechartSetters\<close> (a parameter, applied to the index of the
  profile), then \<open>setSelectedNode\<close>, then the view state. The memoised
  \<open>getInvertedCallerProfile\<close> and \<open>getInvertedCallerFlamegraph\<close> are taken at the value
  of the function they wrap.
\<close>

record ('v, 's) FlamechartWrapperProps =
  renderInverted :: bool
  flamechart :: Flamechart
  canvas :: GLCanvas
  frameColors :: "Frame \<rightharpoonup> nat"
  otherProps :: "('v, 's) Props"

definition InvertedCallerFlamegraphView ::
  "(string \<Rightarrow> nat) \<Rightarrow> nat \<Rightarrow> (nat \<Rightarrow> ('v, 's) Props) \<Rightarrow> AppState
     \<Rightarrow> ('v, 's) ActiveProfileState \<Rightarrow> Error + ('v, 's) FlamechartWrapperProps" where
  "InvertedCallerFlamegraphView hash buckets useFlamechartSetters state activeProfileState =
     (case profile activeProfileState of
        None \<Rightarrow> Inl (Error ''profile missing'')
      | Some p \<Rightarrow>
     (case glCanvas state of
        None \<Rightarrow> Inl (Error ''glCanvas missing'')
      | Some c \<Rightarrow>
     (case callerCallee (sandwichViewState activeProfileState) of
        None \<Rightarrow> Inl (Error ''callerCallee missing'')
      | Some cc \<Rightarrow>
          let p = (if flattenRecursion state then getProfileWithRecursionFlattened p else p);
              frameToColorBucket = getFrameToColorBucket hash buckets p;
              fc = computeInvertedCallerFlamegraph
                     (computeInvertedCallerProfile p (selectedFrame cc) (flattenRecursion state))
                     frameToColorBucket
          in Inr \<lparr>renderInverted = True,
                  flamechart = fc,
                  canvas = c,
                  frameColors = frameToColorBucket,
                  otherProps = useFlamechartSetters (index activeProfileState)
                                 ++ [''setSelectedNode'' \<mapsto> Callback noop]
                                 ++ invertedCallerFlamegraph cc\<rparr>)))"

text \<open>
  \<open>ProfileTableViewContainer\<close> (profile-table-view.tsx): the check of the profile, then
  the props of \<open>ProfileTableView\<close>, without the two action creators: \<open>profile\<close>,
  \<open>selectedFrame\<close>, the colour buckets for \<open>getCSSColorForFrame\<close>, and \<open>sortMethod\<close>
  (the names of the state's fields being taken, the props are named \<open>table...\<close> here).
\<close>

record ProfileTableViewProps =
  tableProfile :: Profile
  tableSelectedFrame :: "Frame option"
  tableFrameColors :: "Frame \<rightharpoonup> nat"
  tableSort :: SortMethod

definition ProfileTableViewContainer ::
  "(string \<Rightarrow> nat) \<Rightarrow> nat \<Rightarrow> AppState \<Rightarrow> ('v, 's) ActiveProfileState
     \<Rightarrow> Error + ProfileTableViewProps" where
  "ProfileTableViewContainer hash buckets state activeProfileState =
     (case profile activeProfileState of
        None \<Rightarrow> Inl (Error ''profile missing'')
      | Some p \<Rightarrow>
          let sel = (case callerCallee (sandwichViewState activeProfileState) of
                       Some cc \<Rightarrow> Some (selectedFrame cc)
                     | None \<Rightarrow> None);
              frameToColorBucket = getFrameToColorBucket hash buckets p
          in Inr \<lparr>tableProfile = p,
                  tableSelectedFrame = sel,
                  tableFrameColors = frameToColorBucket,
                  tableSort = tableSortMethod state\<rparr>)"

text \<open>
  A state in which every view renders: setters that store their argument, a canvas, a
  selected frame and a view state with one field.
\<close>

definition demoSetters :: "nat \<Rightarrow> (nat, nat) Props" where
  "demoSetters i =
     [''setNodeHover'' \<mapsto> Callback (\<lambda>v s. v), ''setSelectedNode'' \<mapsto> Callback (\<lambda>v s. v)]"

definition demoState :: AppState where
  "demoState =
     \<lparr>flattenRecursion = True, glCanvas = Some (GLCanvas 0),
      tableSortMethod = \<lparr>field = SELF, direction = DESCENDING\<rparr>\<rparr>"

definition demoCallerCallee :: "(nat, nat) CallerCalleeState" where
  "demoCallerCallee =
     \<lparr>selectedFrame = content demoFrame, invertedCallerFlamegraph = [''hover'' \<mapsto> Value 0]\<rparr>"

definition demoActive :: "(nat, nat) ActiveProfileState" where
  "demoActive =
     \<lparr>profile = Some recursionDemo,
      sandwichViewState = \<lparr>callerCallee = Some demoCallerCallee\<rparr>,
      index = 0\<rparr>"

section \<open>Properties of profiles\<close>

subsection \<open>Weights of frames and of the grouped call tree\<close>

lemma frameTotalWeight_le: "frameTotalWeight S f \<le> nonIdleWeight S"
  unfolding frameTotalWeight_def nonIdleWeight_def
  by (induction S) auto

lemma frameSelfWeight_le_total: "frameSelfWeight S f \<le> frameTotalWeight S f"
  unfolding frameTotalWeight_def frameSelfWeight_def
  by (induction S) auto

lemma buildProfile_frame_weights:
  "f \<in> set (frames (buildProfile S)) \<Longrightarrow>
     selfWeight f \<le> totalWeight f \<and> totalWeight f \<le> nonIdleWeight S"
  by (auto simp: buildProfile_def frameSelfWeight_le_total frameTotalWeight_le)

lemma appendSample_root_weights:
  "sum_list (map nodeTotalWeight (appendSample s w forest))
     = sum_list (map nodeTotalWeight forest) + (if s = [] then 0 else w)"
  by (induction s w forest rule: appendSample.induct) auto

lemma foldl_appendSample_root_weights:
  "sum_list (map nodeTotalWeight
       (foldl (\<lambda>forest s. appendSample (fst s) (snd s) forest) forest S))
     = sum_list (map nodeTotalWeight forest) + nonIdleWeight S"
  by (induction S arbitrary: forest)
     (auto simp: nonIdleWeight_def appendSample_root_weights)

lemma groupedCalltree_root_weights:
  "sum_list (map nodeTotalWeight (groupedCalltree S)) = nonIdleWeight S"
  using foldl_appendSample_root_weights [of "[]" S] by (simp add: groupedCalltree_def)

lemma walk_depth_ge: "c \<in> set (walk start depth forest) \<Longrightarrow> depth \<le> callDepth c"
  by (induction start depth forest arbitrary: c rule: walk.induct) fastforce+

lemma walk_roots:
  "map (\<lambda>c. (callFrame c, callWeight c))
       (filter (\<lambda>c. callDepth c = depth) (walk start depth forest))
     = map rootInfo forest"
proof (induction start depth forest rule: walk.induct)
  case (1 start depth)
  then show ?case by simp
next
  case (2 start depth f tw cs rest)
  have "filter (\<lambda>c. callDepth c = depth) (walk start (Suc depth) cs) = []"
    using walk_depth_ge [of _ start "Suc depth" cs] by (fastforce simp: filter_empty_conv)
  with 2 show ?case by simp
qed

lemma rootCalls_forEachCallGrouped:
  "rootCalls (forEachCallGrouped P) = map rootInfo (groupedCalltree (samples P))"
  by (simp add: rootCalls_def forEachCallGrouped_def walk_roots)

lemma flattenStack_empty: "flattenStack [] s = [] \<longleftrightarrow> s = []"
  by (cases s) auto

lemma nonIdleWeight_flattenSamples: "nonIdleWeight (flattenSamples S) = nonIdleWeight S"
  by (induction S) (auto simp: nonIdleWeight_def flattenSamples_def flattenStack_empty)

lemma finalized_weights:
  "finalized P \<Longrightarrow>
     (\<forall>f \<in> set (frames P). selfWeight f \<le> totalWeight f \<and> totalWeight f \<le> totalNonIdleWeight P)
     \<and> nonIdleWeight (samples P) = totalNonIdleWeight P"
proof (induction rule: finalized.induct)
  case (built S)
  then show ?case
    using buildProfile_frame_weights [of _ S] by (auto simp: buildProfile_def)
next
  case (flattened P)
  then show ?case
    by (simp add: getProfileWithRecursionFlattened_def nonIdleWeight_flattenSamples)
next
  case (inverted P f)
  then show ?case
    using buildProfile_frame_weights [of _ "invertSamples (samples P) (frameInfo f)"]
    by (auto simp: getInvertedProfileForCallersOf_def buildProfile_def)
qed

text \<open>
  C6: in every finalized profile each frame's self weight is at most its total weight,
  and the total weights of the root-level nodes that \<open>forEachCallGrouped\<close> enumerates add
  up to \<open>getTotalNonIdleWeight\<close>.
\<close>

theorem weights_reconcile:
  assumes "finalized P"
  shows "(\<forall>f \<in> set (forEachFrame P). getSelfWeight f \<le> getTotalWeight f)
       \<and> sum_list (map snd (rootCalls (forEachCallGrouped P))) = getTotalNonIdleWeight P"
proof -
  note inv = finalized_weights [OF assms]
  have "sum_list (map snd (rootCalls (forEachCallGrouped P))) = nonIdleWeight (samples P)"
    using groupedCalltree_root_weights [of "samples P"]
    by (simp add: rootCalls_forEachCallGrouped comp_def)
  with inv show ?thesis
    by (simp add: forEachFrame_def getTotalNonIdleWeight_def)
qed

theorem weights_reconcile_witness:
  "finalized weightsDemo
   \<and> mainFrame \<in> set (forEachFrame weightsDemo)
   \<and> getSelfWeight mainFrame \<le> getTotalWeight mainFrame
   \<and> rootCalls (forEachCallGrouped weightsDemo)
       = [(frameNamed ''main'', 50), (frameNamed ''other'', 50)]
   \<and> sum_list (map snd (rootCalls (forEachCallGrouped weightsDemo))) = 100
   \<and> getTotalNonIdleWeight weightsDemo = 100"
proof -
  have fin: "finalized weightsDemo"
    unfolding weightsDemo_def by (rule finalized.built)
  have mem: "mainFrame \<in> set (forEachFrame weightsDemo)"
    by (simp add: forEachFrame_def buildProfile_def stackFrames_def weightsDemo_def
        mainFrame_def frameNamed_def frameSelfWeight_def frameTotalWeight_def)
  have roots: "rootCalls (forEachCallGrouped weightsDemo)
       = [(frameNamed ''main'', 50), (frameNamed ''other'', 50)]"
    by (simp add: rootCalls_forEachCallGrouped groupedCalltree_def weightsDemo_def
        buildProfile_def frameNamed_def)
  have total: "getTotalNonIdleWeight weightsDemo = 100"
    by (simp add: getTotalNonIdleWeight_def weightsDemo_def buildProfile_def nonIdleWeight_def)
  show ?thesis using fin mem roots total weights_reconcile [OF fin] by simp
qed

subsection \<open>Inverting around a frame\<close>

lemma callerStacks_head: "st \<in> set (callerStacks f callers s) \<Longrightarrow> \<exists>t. st = f # t"
  by (induction s arbitrary: callers) (auto split: if_splits)

lemma length_callerStacks: "length (callerStacks f callers s) = count_list s f"
  by (induction s arbitrary: callers) auto

lemma invertSamples_head: "s \<in> set (invertSamples S f) \<Longrightarrow> \<exists>t. fst s = f # t"
  by (auto simp: invertSamples_def dest: callerStacks_head)

lemma invertSamples_weight:
  "sum_list (map snd (invertSamples S f)) = (\<Sum>s\<leftarrow>S. count_list (fst s) f * snd s)"
  by (induction S)
     (auto simp: invertSamples_def length_callerStacks comp_def sum_list_triv)

lemma invertSamples_nonempty:
  assumes "s \<in> set S" "f \<in> set (fst s)"
  shows "invertSamples S f \<noteq> []"
proof -
  have "callerStacks f callers t \<noteq> []" if "f \<in> set t" for t callers
    using that by (induction t arbitrary: callers) auto
  then have "callerStacks f [] (fst s) \<noteq> []" using assms(2) by blast
  with assms(1) show ?thesis
    by (auto simp: invertSamples_def)
qed

lemma appendSample_same_root:
  "map rootInfo forest = [(f, W)] \<Longrightarrow>
     map rootInfo (appendSample (f # t) w forest) = [(f, W + w)]"
  by (cases forest; cases "hd forest") auto

lemma foldl_appendSample_same_root:
  "\<forall>s \<in> set Q. \<exists>t. fst s = f # t \<Longrightarrow> map rootInfo forest = [(f, W)] \<Longrightarrow>
     map rootInfo (foldl (\<lambda>forest s. appendSample (fst s) (snd s) forest) forest Q)
       = [(f, W + sum_list (map snd Q))]"
proof (induction Q arbitrary: forest W)
  case Nil
  then show ?case by simp
next
  case (Cons q Q)
  from Cons.prems(1) obtain t where t: "fst q = f # t" by auto
  have "map rootInfo (appendSample (fst q) (snd q) forest) = [(f, W + snd q)]"
    using appendSample_same_root [OF Cons.prems(2)] t by simp
  from Cons.IH [OF _ this] Cons.prems(1) show ?case by (simp add: add.assoc)
qed

lemma groupedCalltree_single_root:
  assumes "\<forall>s \<in> set Q. \<exists>t. fst s = f # t" and "Q \<noteq> []"
  shows "map rootInfo (groupedCalltree Q) = [(f, sum_list (map snd Q))]"
proof -
  from assms(2) obtain q Q' where Q: "Q = q # Q'" by (cases Q) auto
  with assms(1) obtain t where t: "fst q = f # t" by auto
  have first: "map rootInfo (appendSample (fst q) (snd q) []) = [(f, snd q)]"
    using t by simp
  have "\<forall>s \<in> set Q'. \<exists>t. fst s = f # t" using assms(1) Q by simp
  from foldl_appendSample_same_root [OF this first] show ?thesis
    by (simp add: groupedCalltree_def Q)
qed

lemma samples_inverted:
  "samples (getInvertedProfileForCallersOf P f) = invertSamples (samples P) (frameInfo f)"
  by (simp add: getInvertedProfileForCallersOf_def buildProfile_def)

text \<open>
  C3: for every profile and every frame f that occurs in one of its stacks, the call tree
  of the profile inverted around f has the single root f, and the total weight of that
  root is the sum, over all occurrences of f in the stacks of the profile, of the weight of
  the occurrence's sample.
\<close>

theorem inverted_root:
  assumes "s \<in> set (samples P)" and "frameInfo f \<in> set (fst s)"
  shows "rootCalls (forEachCallGrouped (getInvertedProfileForCallersOf P f))
           = [(frameInfo f, \<Sum>s\<leftarrow>samples P. count_list (fst s) (frameInfo f) * snd s)]"
  using groupedCalltree_single_root [of "invertSamples (samples P) (frameInfo f)" "frameInfo f"]
    invertSamples_head [of _ "samples P" "frameInfo f"] invertSamples_nonempty [OF assms]
    invertSamples_weight [of "samples P" "frameInfo f"]
  by (auto simp: rootCalls_forEachCallGrouped samples_inverted)

text \<open>
  The example of C3: inverting around b gives the root b of total weight 100 with the two
  children a (40) and c (60).
\<close>

theorem inverted_root_witness:
  "([frameNamed ''main'', frameNamed ''a'', frameNamed ''b''], 40) \<in> set (samples callersDemo)
   \<and> frameInfo frameB \<in> set [frameNamed ''main'', frameNamed ''a'', frameNamed ''b'']
   \<and> frameB \<in> set (forEachFrame callersDemo)
   \<and> rootCalls (forEachCallGrouped (getInvertedProfileForCallersOf callersDemo frameB))
       = [(frameNamed ''b'', 100)]
   \<and> groupedCalltree (samples (getInvertedProfileForCallersOf callersDemo frameB))
       = [CallTreeNode (frameNamed ''b'') 100
            [CallTreeNode (frameNamed ''a'') 40 [CallTreeNode (frameNamed ''main'') 40 []],
             CallTreeNode (frameNamed ''c'') 60 [CallTreeNode (frameNamed ''main'') 60 []]]]"
proof -
  have mem: "([frameNamed ''main'', frameNamed ''a'', frameNamed ''b''], 40)
               \<in> set (samples callersDemo)"
    by (simp add: callersDemo_def buildProfile_def)
  have b: "frameInfo frameB = frameNamed ''b''"
    by (simp add: frameB_def frameNamed_def FrameInfo.truncate_def)
  have occ: "frameInfo frameB
               \<in> set (fst ([frameNamed ''main'', frameNamed ''a'', frameNamed ''b''], 40::nat))"
    by (simp add: b)
  have frame: "frameB \<in> set (forEachFrame callersDemo)"
    by (simp add: forEachFrame_def callersDemo_def buildProfile_def stackFrames_def
        frameB_def frameNamed_def frameSelfWeight_def frameTotalWeight_def)
  have total: "(\<Sum>s\<leftarrow>samples callersDemo. count_list (fst s) (frameInfo frameB) * snd s) = 100"
    by (simp add: b callersDemo_def buildProfile_def frameNamed_def)
  have tree: "groupedCalltree (samples (getInvertedProfileForCallersOf callersDemo frameB))
       = [CallTreeNode (frameNamed ''b'') 100
            [CallTreeNode (frameNamed ''a'') 40 [CallTreeNode (frameNamed ''main'') 40 []],
             CallTreeNode (frameNamed ''c'') 60 [CallTreeNode (frameNamed ''main'') 60 []]]]"
    by (simp add: samples_inverted b groupedCalltree_def invertSamples_def callersDemo_def
        buildProfile_def frameNamed_def)
  show ?thesis using mem occ frame total tree b inverted_root [OF mem occ] by simp
qed

subsection \<open>Flattening recursion\<close>

lemma set_flattenStack: "set (flattenStack seen s) = set s - set seen"
  by (induction s arbitrary: seen) auto

lemma distinct_flattenStack: "distinct (flattenStack seen s)"
  by (induction s arbitrary: seen) (auto simp: set_flattenStack)

lemma flattenStack_id:
  "distinct s \<Longrightarrow> set s \<inter> set seen = {} \<Longrightarrow> flattenStack seen s = s"
  by (induction s arbitrary: seen) auto

lemma flattenStack_idem: "flattenStack [] (flattenStack [] s) = flattenStack [] s"
  by (simp add: flattenStack_id distinct_flattenStack)

lemma flattenSamples_idem: "flattenSamples (flattenSamples S) = flattenSamples S"
  by (simp add: flattenSamples_def flattenStack_idem comp_def)

lemma flatten_idem:
  "getProfileWithRecursionFlattened (getProfileWithRecursionFlattened P)
     = getProfileWithRecursionFlattened P"
  by (simp add: getProfileWithRecursionFlattened_def flattenSamples_idem)

lemma forEachFrame_flattened:
  "forEachFrame (getProfileWithRecursionFlattened P) = forEachFrame P"
  by (simp add: forEachFrame_def getProfileWithRecursionFlattened_def)

text \<open>
  The stacks of a flattened profile, and so their inverted stacks, have no frame twice:
  flattening the profile inverted from a flattened profile changes nothing.
\<close>

lemma callerStacks_distinct:
  "distinct (rev callers @ s) \<Longrightarrow> st \<in> set (callerStacks f callers s) \<Longrightarrow> distinct st"
proof (induction s arbitrary: callers)
  case Nil
  then show ?case by simp
next
  case (Cons g rest)
  from Cons.prems(2) consider "g = f" "st = f # callers"
    | "st \<in> set (callerStacks f (g # callers) rest)"
    by (auto split: if_splits)
  then show ?case
  proof cases
    case 1
    then show ?thesis using Cons.prems(1) by auto
  next
    case 2
    have "distinct (rev (g # callers) @ rest)" using Cons.prems(1) by simp
    from Cons.IH [OF this 2] show ?thesis .
  qed
qed

lemma flattenSamples_inverted_of_flattened:
  "flattenSamples (invertSamples (flattenSamples S) f) = invertSamples (flattenSamples S) f"
proof -
  let ?Q = "invertSamples (flattenSamples S) f"
  have "distinct (fst s)" if "s \<in> set ?Q" for s
  proof -
    from that obtain t where "t \<in> set S"
      and "fst s \<in> set (callerStacks f [] (flattenStack [] (fst t)))"
      by (auto simp: invertSamples_def flattenSamples_def)
    then show ?thesis
      using callerStacks_distinct [of "[]" "flattenStack [] (fst t)" "fst s" f]
      by (simp add: distinct_flattenStack)
  qed
  then have "map (\<lambda>s. (flattenStack [] (fst s), snd s)) ?Q = ?Q"
    by (intro map_idI) (simp add: flattenStack_id)
  then show ?thesis by (simp add: flattenSamples_def [of ?Q])
qed

lemma flatten_inverted_of_flattened:
  "getProfileWithRecursionFlattened
     (getInvertedProfileForCallersOf (getProfileWithRecursionFlattened P) f)
     = getInvertedProfileForCallersOf (getProfileWithRecursionFlattened P) f"
  by (simp add: getProfileWithRecursionFlattened_def getInvertedProfileForCallersOf_def
      buildProfile_def flattenSamples_inverted_of_flattened)

text \<open>
  The example of the specification: the stack main, a, a, b of weight 100 flattens to the
  tree main, a (100), b (100) of three nodes, and the frame a keeps its weights.
\<close>

lemma flatten_recursionDemo:
  "groupedCalltree (samples (getProfileWithRecursionFlattened recursionDemo))
     = [CallTreeNode (frameNamed ''main'') 100
          [CallTreeNode (frameNamed ''a'') 100 [CallTreeNode (frameNamed ''b'') 100 []]]]
   \<and> frameA \<in> set (forEachFrame recursionDemo)
   \<and> frameA \<in> set (forEachFrame (getProfileWithRecursionFlattened recursionDemo))"
  by (simp add: groupedCalltree_def getProfileWithRecursionFlattened_def flattenSamples_def
      recursionDemo_def buildProfile_def frameNamed_def forEachFrame_def stackFrames_def
      frameA_def frameSelfWeight_def frameTotalWeight_def)

text \<open>
  C4: flattening twice gives the same profile as flattening once: the same frames with
  the same total and self weights, the same grouped calls and the same total weight.
\<close>

theorem flatten_twice_same_weights:
  "map (\<lambda>f. (frameInfo f, getTotalWeight f, getSelfWeight f))
       (forEachFrame (getProfileWithRecursionFlattened (getProfileWithRecursionFlattened P)))
     = map (\<lambda>f. (frameInfo f, getTotalWeight f, getSelfWeight f))
         (forEachFrame (getProfileWithRecursionFlattened P))
   \<and> forEachCallGrouped (getProfileWithRecursionFlattened (getProfileWithRecursionFlattened P))
       = forEachCallGrouped (getProfileWithRecursionFlattened P)
   \<and> getTotalNonIdleWeight (getProfileWithRecursionFlattened (getProfileWithRecursionFlattened P))
       = getTotalNonIdleWeight (getProfileWithRecursionFlattened P)"
  by (simp add: flatten_idem)

subsection \<open>Colour buckets\<close>

lemma getFrameToColorBucket_frame:
  "getFrameToColorBucket hash buckets P f
     = (if f \<in> set (forEachFrame P) then Some (hash (key f) mod buckets) else None)"
  by (induction "forEachFrame P")
     (auto simp: getFrameToColorBucket_def map_of_map_restrict restrict_map_def)

text \<open>
  C5: every frame present both in a profile and in the profile with recursion flattened
  gets the same bucket in both, the hash of its key.
\<close>

theorem color_stable:
  assumes "f \<in> set (forEachFrame P)"
    and "f \<in> set (forEachFrame (getProfileWithRecursionFlattened P))"
  shows "getFrameToColorBucket hash buckets (getProfileWithRecursionFlattened P) f
           = getFrameToColorBucket hash buckets P f
       \<and> getFrameToColorBucket hash buckets P f = Some (hash (key f) mod buckets)"
  using assms by (simp add: getFrameToColorBucket_frame)

theorem color_stable_witness:
  "frameA \<in> set (forEachFrame recursionDemo)
   \<and> frameA \<in> set (forEachFrame (getProfileWithRecursionFlattened recursionDemo))
   \<and> getFrameToColorBucket keyLength 8 (getProfileWithRecursionFlattened recursionDemo) frameA
       = getFrameToColorBucket keyLength 8 recursionDemo frameA
   \<and> getFrameToColorBucket keyLength 8 recursionDemo frameA = Some 1"
proof -
  have a: "frameA \<in> set (forEachFrame recursionDemo)"
    using flatten_recursionDemo by blast
  have b: "frameA \<in> set (forEachFrame (getProfileWithRecursionFlattened recursionDemo))"
    using flatten_recursionDemo by blast
  have c: "keyLength (key frameA) mod 8 = 1"
    by (simp add: keyLength_def frameA_def)
  show ?thesis using a b c color_stable [OF a b, of keyLength 8] by simp
qed

section \<open>Properties of the memoised derivations\<close>

lemma shallowEqual_iff: "shallowEqual a b \<longleftrightarrow> map_of a = map_of b"
proof
  assume eq: "shallowEqual a b"
  show "map_of a = map_of b"
  proof
    fix k
    show "map_of a k = map_of b k"
    proof (cases "k \<in> fst ` set a \<or> k \<in> fst ` set b")
      case True
      then show ?thesis using eq by (auto simp: shallowEqual_def list_all_iff)
    next
      case False
      then have "map_of a k = None" "map_of b k = None" by (simp_all add: map_of_eq_None_iff)
      then show ?thesis by simp
    qed
  qed
next
  assume "map_of a = map_of b"
  then show "shallowEqual a b" by (simp add: shallowEqual_def list_all_iff)
qed

lemma shallowEqual_argFields:
  "shallowEqual (argFields a) (argFields b) \<longleftrightarrow>
     address (argProfile a) = address (argProfile b)
     \<and> address (argFrame a) = address (argFrame b)
     \<and> argFlattenRecursion a = argFlattenRecursion b"
  by (auto simp: shallowEqual_def argFields_def)

text \<open>
  C2: for every function f wrapped by \<open>memoizeByShallowEquality\<close> and two calls in
  succession, with inputs a and then b: when the fields of a and b are pairwise identical,
  the second call does not invoke f and returns the result of the first; when some field
  differs in identity (also when b is newly built and equal in content), the second call
  invokes f again, on b. On a fresh wrapper the first call invokes f once, on a.
\<close>

theorem memoize_twice:
  "(let (r1, m1) = memoizeByShallowEquality fieldsOf f m0 a;
        (r2, m2) = memoizeByShallowEquality fieldsOf f m1 b
    in (shallowEqual (fieldsOf a) (fieldsOf b) \<longrightarrow>
          r2 = r1 \<and> invocations m2 = invocations m1)
     \<and> (\<not> shallowEqual (fieldsOf a) (fieldsOf b) \<longrightarrow>
          r2 = f b \<and> invocations m2 = invocations m1 + 1)
     \<and> (lastCall m0 = None \<longrightarrow> r1 = f a \<and> invocations m1 = invocations m0 + 1))"
  by (auto simp: memoizeByShallowEquality_def Let_def shallowEqual_iff
      split: option.splits prod.splits)

theorem memoize_twice_witness:
  "shallowEqual (argFields demoArgs) (argFields demoArgs)
   \<and> lastCall (emptyMemo :: (InvertedCallerProfileArgs, Profile) Memo) = None
   \<and> invocations
        (snd (getInvertedCallerProfile (snd (getInvertedCallerProfile emptyMemo demoArgs))
           demoArgs)) = 1
   \<and> fst (getInvertedCallerProfile (snd (getInvertedCallerProfile emptyMemo demoArgs)) demoArgs)
       = fst (getInvertedCallerProfile emptyMemo demoArgs)
   \<and> \<not> shallowEqual (argFields demoArgs) (argFields demoArgsRebuilt)
   \<and> content (argProfile demoArgsRebuilt) = content (argProfile demoArgs)
   \<and> invocations
        (snd (getInvertedCallerProfile (snd (getInvertedCallerProfile emptyMemo demoArgs))
           demoArgsRebuilt)) = 2"
proof -
  let ?f = "\<lambda>args. computeInvertedCallerProfile (content (argProfile args))
                 (content (argFrame args)) (argFlattenRecursion args)"
  have same: "shallowEqual (argFields demoArgs) (argFields demoArgs)"
    by (simp add: shallowEqual_argFields)
  have rebuilt: "\<not> shallowEqual (argFields demoArgs) (argFields demoArgsRebuilt)"
    by (simp add: shallowEqual_argFields demoArgs_def demoArgsRebuilt_def)
  have fresh: "lastCall (emptyMemo :: (InvertedCallerProfileArgs, Profile) Memo) = None"
    "invocations (emptyMemo :: (InvertedCallerProfileArgs, Profile) Memo) = 0"
    by (simp_all add: emptyMemo_def)
  have content: "content (argProfile demoArgsRebuilt) = content (argProfile demoArgs)"
    by (simp add: demoArgs_def demoArgsRebuilt_def)
  show ?thesis
    using same rebuilt fresh content
      memoize_twice [of argFields ?f emptyMemo demoArgs demoArgs]
      memoize_twice [of argFields ?f emptyMemo demoArgs demoArgsRebuilt]
    by (simp add: getInvertedCallerProfile_def split_def Let_def)
qed

section \<open>Properties of the frame table\<close>

text \<open>
  C9: for every profile and every sort field, the frame list computed with direction
  DESCENDING is exactly the reversal of the list computed with direction ASCENDING,
  whatever \<open>sortBy\<close> does with frames of equal keys.
\<close>

theorem frameList_descending_is_rev_ascending:
  "frameList sortBy P \<lparr>field = fld, direction = DESCENDING\<rparr> =
     rev (frameList sortBy P \<lparr>field = fld, direction = ASCENDING\<rparr>)"
  by (simp add: frameList_def Let_def)

subsection \<open>Sorting by self weight\<close>

lemma mset_insertBy: "mset (insertBy k x xs) = add_mset x (mset xs)"
  by (induction xs) auto

lemma mset_stableSortBy: "mset (stableSortBy k xs) = mset xs"
  by (induction xs) (auto simp: mset_insertBy)

lemma set_insertBy: "set (insertBy k x xs) = insert x (set xs)"
  by (induction xs) auto

lemma sorted_insertBy:
  "sorted (map g xs) \<Longrightarrow> sorted (map g (insertBy (\<lambda>x. KeyNumber (g x)) x xs))"
  by (induction xs) (auto simp: set_insertBy)

lemma sorted_stableSortBy: "sorted (map g (stableSortBy (\<lambda>x. KeyNumber (g x)) xs))"
  by (induction xs) (auto simp: sorted_insertBy)

text \<open>The profile of the example is the one constructed from its three samples.\<close>

lemma tableDemo_built:
  "tableDemo
     = buildProfile [([frameNamed ''x''], 5), ([frameNamed ''y''], 20), ([frameNamed ''z''], 1)]"
  by (simp add: tableDemo_def buildProfile_def stackFrames_def nonIdleWeight_def frameNamed_def
      frameSelfWeight_def frameTotalWeight_def)

lemma tableDemo_self_descending:
  "map getSelfWeight
     (frameList stableSortBy tableDemo \<lparr>field = SELF, direction = DESCENDING\<rparr>) = [20, 5, 1]"
  by (simp add: frameList_def forEachFrame_def tableDemo_def)

text \<open>
  C7: with a \<open>sortBy\<close> that returns its input ordered by ascending key, the table
  sorted by self weight, direction DESCENDING, lists the frames of the profile by decreasing
  self weight; and clicking the header of the active sort field (which toggles the
  direction) yields exactly the reversed list.
\<close>

theorem frameList_self_descending:
  assumes srt: "\<And>fs. sorted (map getSelfWeight (sortBy (\<lambda>f. KeyNumber (getSelfWeight f)) fs))"
    and perm: "\<And>k fs. mset (sortBy k fs) = mset fs"
  shows "sorted_wrt (\<lambda>a b. b \<le> a)
           (map getSelfWeight (frameList sortBy P \<lparr>field = SELF, direction = DESCENDING\<rparr>))
       \<and> mset (frameList sortBy P \<lparr>field = SELF, direction = DESCENDING\<rparr>)
           = mset (forEachFrame P)
       \<and> frameList sortBy P (onSortClick sm (field sm)) = rev (frameList sortBy P sm)"
proof -
  let ?desc = "frameList sortBy P \<lparr>field = SELF, direction = DESCENDING\<rparr>"
  have "sorted (rev (map getSelfWeight ?desc))"
    using srt [of "forEachFrame P"] by (simp add: frameList_def rev_map)
  then have decreasing: "sorted_wrt (\<lambda>a b. b \<le> a) (map getSelfWeight ?desc)"
    by (simp add: sorted_wrt_rev)
  have same_frames: "mset ?desc = mset (forEachFrame P)"
    by (simp add: frameList_def perm)
  have toggled: "frameList sortBy P (onSortClick sm (field sm))
                   = rev (frameList sortBy P sm)"
    by (cases "direction sm") (simp_all add: frameList_def onSortClick_def Let_def)
  from decreasing same_frames toggled show ?thesis by blast
qed

theorem frameList_self_descending_witness:
  "map getSelfWeight
     (frameList stableSortBy tableDemo \<lparr>field = SELF, direction = DESCENDING\<rparr>) = [20, 5, 1]
   \<and> sorted_wrt (\<lambda>a b. b \<le> a)
       (map getSelfWeight
         (frameList stableSortBy tableDemo \<lparr>field = SELF, direction = DESCENDING\<rparr>))
   \<and> mset (frameList stableSortBy tableDemo \<lparr>field = SELF, direction = DESCENDING\<rparr>)
       = mset (forEachFrame tableDemo)
   \<and> frameList stableSortBy tableDemo
         (onSortClick \<lparr>field = SELF, direction = DESCENDING\<rparr> SELF)
       = rev (frameList stableSortBy tableDemo \<lparr>field = SELF, direction = DESCENDING\<rparr>)"
  using frameList_self_descending [of stableSortBy tableDemo
      "\<lparr>field = SELF, direction = DESCENDING\<rparr>", OF sorted_stableSortBy mset_stableSortBy]
    tableDemo_self_descending
  by simp

subsection \<open>Percentages of a profile of zero weight\<close>

text \<open>
  C1 as stated fails: the row divides by \<open>getTotalNonIdleWeight()\<close> without a guard.
  For the profile without samples and a frame of weight zero, and for the profile of one
  sample of weight zero and its frame, both percentages are NaN, not 0.
\<close>

theorem ProfileTableRowView_zero_weight_counterexample:
  "getTotalNonIdleWeight emptyProfile = 0
   \<and> totalPerc (ProfileTableRowView zeroFrame emptyProfile) = NaN
   \<and> selfPerc (ProfileTableRowView zeroFrame emptyProfile) = NaN
   \<and> getTotalNonIdleWeight zeroWeightDemo = 0
   \<and> forEachFrame zeroWeightDemo = [zeroFrame]
   \<and> totalPerc (ProfileTableRowView zeroFrame zeroWeightDemo) = NaN
   \<and> selfPerc (ProfileTableRowView zeroFrame zeroWeightDemo) = NaN"
  by (simp add: ProfileTableRowView_def js_div_def getTotalNonIdleWeight_def emptyProfile_def
      zeroWeightDemo_def zeroFrame_def forEachFrame_def)

text \<open>
  C1, amended: for every profile of zero total non-idle weight the row raises no
  exception, and each percentage is NaN for a frame whose weight is zero and +Infinity for
  a frame whose weight is positive; it is never 0.
\<close>

theorem ProfileTableRowView_zero_weight:
  assumes "getTotalNonIdleWeight P = 0"
  shows "totalPerc (ProfileTableRowView fr P)
           = (if getTotalWeight fr = 0 then NaN else PosInfinity)
       \<and> selfPerc (ProfileTableRowView fr P)
           = (if getSelfWeight fr = 0 then NaN else PosInfinity)"
  using assms by (simp add: ProfileTableRowView_def js_div_def)

theorem ProfileTableRowView_zero_weight_witness:
  "getTotalNonIdleWeight zeroWeightDemo = 0
   \<and> getTotalWeight zeroFrame = 0 \<and> getSelfWeight zeroFrame = 0
   \<and> totalPerc (ProfileTableRowView zeroFrame zeroWeightDemo) = NaN
   \<and> selfPerc (ProfileTableRowView zeroFrame zeroWeightDemo) = NaN"
proof -
  have total: "getTotalNonIdleWeight zeroWeightDemo = 0"
    by (simp add: getTotalNonIdleWeight_def zeroWeightDemo_def)
  have zero: "getTotalWeight zeroFrame = 0" "getSelfWeight zeroFrame = 0"
    by (simp_all add: zeroFrame_def)
  show ?thesis
    using total zero ProfileTableRowView_zero_weight [OF total, of zeroFrame] by simp
qed

text \<open>
  The two profiles of the example are those constructed from no sample and from one
  sample of weight zero; and in every finalized profile of zero total non-idle weight all
  frames have weight zero, so both percentages of every row are NaN.
\<close>

lemma zero_weight_profiles_built:
  "emptyProfile = buildProfile [] \<and> zeroWeightDemo = buildProfile [([frameNamed ''main''], 0)]"
  by (simp add: emptyProfile_def zeroWeightDemo_def zeroFrame_def buildProfile_def
      stackFrames_def nonIdleWeight_def frameNamed_def frameSelfWeight_def
      frameTotalWeight_def)

lemma finalized_zero_weight_rows:
  assumes "finalized P" and "getTotalNonIdleWeight P = 0" and "f \<in> set (forEachFrame P)"
  shows "totalPerc (ProfileTableRowView f P) = NaN \<and> selfPerc (ProfileTableRowView f P) = NaN"
proof -
  from finalized_weights [OF assms(1)] assms(2,3)
  have "getTotalWeight f = 0" "getSelfWeight f = 0"
    by (auto simp: forEachFrame_def getTotalNonIdleWeight_def)
  with assms(2) show ?thesis by (simp add: ProfileTableRowView_def js_div_def)
qed

section \<open>Properties of the container views\<close>

text \<open>
  With \<open>flattenRecursion\<close> set, the inverted-callers view flattens the profile and
  \<open>getInvertedCallerProfile\<close> flattens the inverted profile once more; the second
  flattening changes nothing.
\<close>

lemma computeInvertedCallerProfile_flattened:
  "computeInvertedCallerProfile (getProfileWithRecursionFlattened P) fr True
     = getInvertedProfileForCallersOf (getProfileWithRecursionFlattened P) fr"
  by (simp add: computeInvertedCallerProfile_def flatten_inverted_of_flattened)

lemma demo_view:
  "\<exists>w. InvertedCallerFlamegraphView keyLength 8 demoSetters demoState demoActive = Inr w
       \<and> canvas w = GLCanvas 0 \<and> flamechartTotalWeight (flamechart w) = 100"
  by (simp add: InvertedCallerFlamegraphView_def demoState_def demoActive_def
      demoCallerCallee_def demoFrame_def computeInvertedCallerFlamegraph_def
      computeInvertedCallerProfile_def getTotalNonIdleWeight_def
      getInvertedProfileForCallersOf_def getProfileWithRecursionFlattened_def
      invertSamples_def flattenSamples_def buildProfile_def nonIdleWeight_def
      recursionDemo_def frameA_def frameNamed_def FrameInfo.truncate_def Let_def)

text \<open>
  C8: a view rendered without its required context throws: the inverted-callers view
  without a profile, without a canvas or without a caller-callee state (the selected
  frame), in this order, and the table view without a profile. A view that renders uses the
  profile, the canvas and the selected frame it was given; the table view selects no
  frame when there is no caller-callee state.
\<close>

theorem missing_context_throws:
  "(profile aps = None \<longrightarrow>
      InvertedCallerFlamegraphView hash buckets setters st aps = Inl (Error ''profile missing''))
   \<and> (profile aps \<noteq> None \<and> glCanvas st = None \<longrightarrow>
      InvertedCallerFlamegraphView hash buckets setters st aps = Inl (Error ''glCanvas missing''))
   \<and> (profile aps \<noteq> None \<and> glCanvas st \<noteq> None
        \<and> callerCallee (sandwichViewState aps) = None \<longrightarrow>
      InvertedCallerFlamegraphView hash buckets setters st aps
        = Inl (Error ''callerCallee missing''))
   \<and> (\<forall>w. InvertedCallerFlamegraphView hash buckets setters st aps = Inr w \<longrightarrow>
        (\<exists>p c cc. profile aps = Some p \<and> glCanvas st = Some c
           \<and> callerCallee (sandwichViewState aps) = Some cc
           \<and> canvas w = c
           \<and> flamechart w =
               computeInvertedCallerFlamegraph
                 (computeInvertedCallerProfile
                    (if flattenRecursion st then getProfileWithRecursionFlattened p else p)
                    (selectedFrame cc) (flattenRecursion st))
                 (frameColors w)))
   \<and> (profile aps = None \<longrightarrow>
      ProfileTableViewContainer hash buckets st aps = Inl (Error ''profile missing''))
   \<and> (\<forall>t. ProfileTableViewContainer hash buckets st aps = Inr t \<longrightarrow>
        profile aps = Some (tableProfile t)
        \<and> tableSelectedFrame t = map_option selectedFrame (callerCallee (sandwichViewState aps)))"
  by (auto simp: InvertedCallerFlamegraphView_def ProfileTableViewContainer_def Let_def
      split: option.splits)

theorem missing_context_throws_witness:
  "profile (demoActive\<lparr>profile := None\<rparr>) = None
   \<and> InvertedCallerFlamegraphView keyLength 8 demoSetters demoState
        (demoActive\<lparr>profile := None\<rparr>) = Inl (Error ''profile missing'')
   \<and> ProfileTableViewContainer keyLength 8 demoState (demoActive\<lparr>profile := None\<rparr>)
        = Inl (Error ''profile missing'')
   \<and> profile demoActive \<noteq> None \<and> glCanvas (demoState\<lparr>glCanvas := None\<rparr>) = None
   \<and> InvertedCallerFlamegraphView keyLength 8 demoSetters (demoState\<lparr>glCanvas := None\<rparr>)
        demoActive = Inl (Error ''glCanvas missing'')
   \<and> glCanvas demoState \<noteq> None
   \<and> callerCallee (sandwichViewState
        (demoActive\<lparr>sandwichViewState := \<lparr>callerCallee = None\<rparr>\<rparr>)) = None
   \<and> InvertedCallerFlamegraphView keyLength 8 demoSetters demoState
        (demoActive\<lparr>sandwichViewState := \<lparr>callerCallee = None\<rparr>\<rparr>)
        = Inl (Error ''callerCallee missing'')
   \<and> (\<exists>w. InvertedCallerFlamegraphView keyLength 8 demoSetters demoState demoActive = Inr w
          \<and> canvas w = GLCanvas 0 \<and> flamechartTotalWeight (flamechart w) = 100)
   \<and> (\<exists>t. ProfileTableViewContainer keyLength 8 demoState demoActive = Inr t
          \<and> tableProfile t = recursionDemo
          \<and> tableSelectedFrame t = Some (content demoFrame))"
proof -
  have table: "\<exists>t. ProfileTableViewContainer keyLength 8 demoState demoActive = Inr t
          \<and> tableProfile t = recursionDemo
          \<and> tableSelectedFrame t = Some (content demoFrame)"
    by (simp add: ProfileTableViewContainer_def demoActive_def demoCallerCallee_def)
  have present: "profile demoActive \<noteq> None" "glCanvas demoState \<noteq> None"
    by (simp_all add: demoActive_def demoState_def)
  show ?thesis
    using table present demo_view
      missing_context_throws [where aps = "demoActive\<lparr>profile := None\<rparr>"
        and hash = keyLength and buckets = 8 and setters = demoSetters and st = demoState]
      missing_context_throws [where aps = demoActive
        and hash = keyLength and buckets = 8 and setters = demoSetters
        and st = "demoState\<lparr>glCanvas := None\<rparr>"]
      missing_context_throws [where
        aps = "demoActive\<lparr>sandwichViewState := \<lparr>callerCallee = None\<rparr>\<rparr>"
        and hash = keyLength and buckets = 8 and setters = demoSetters and st = demoState]
    by (simp add: demoActive_def demoState_def)
qed

text \<open>
  C10: in the props of the inverted-callers flamegraph, \<open>setSelectedNode\<close> is the
  callback \<open>noop\<close>, which leaves the state as it is, whatever
  \<open>useFlamechartSetters\<close> returns for it; every other prop of \<open>useFlamechartSetters\<close>
  that the view state does not define is passed on unchanged. (The view state of a
  flamechart has no field named \<open>setSelectedNode\<close>.)
\<close>

theorem setSelectedNode_noop:
  fixes w :: "('v, 's) FlamechartWrapperProps"
  assumes "InvertedCallerFlamegraphView hash buckets setters st aps = Inr w"
    and "callerCallee (sandwichViewState aps) = Some cc"
    and "''setSelectedNode'' \<notin> dom (invertedCallerFlamegraph cc)"
  shows "otherProps w ''setSelectedNode'' = Some (Callback noop)
       \<and> (\<forall>(node :: 'v) (s :: 's). noop node s = s)
       \<and> (\<forall>k. k \<noteq> ''setSelectedNode'' \<and> k \<notin> dom (invertedCallerFlamegraph cc) \<longrightarrow>
             otherProps w k = setters (index aps) k)"
  using assms
  by (auto simp: InvertedCallerFlamegraphView_def Let_def noop_def map_add_def dom_def
      split: option.splits)

theorem setSelectedNode_noop_witness:
  "(\<exists>w. InvertedCallerFlamegraphView keyLength 8 demoSetters demoState demoActive = Inr w
        \<and> otherProps w ''setSelectedNode'' = Some (Callback noop)
        \<and> otherProps w ''setNodeHover'' = demoSetters 0 ''setNodeHover'')
   \<and> callerCallee (sandwichViewState demoActive) = Some demoCallerCallee
   \<and> ''setSelectedNode'' \<notin> dom (invertedCallerFlamegraph demoCallerCallee)
   \<and> ''setNodeHover'' \<notin> dom (invertedCallerFlamegraph demoCallerCallee)
   \<and> demoSetters 0 ''setSelectedNode'' = Some (Callback (\<lambda>v s. v))
   \<and> noop (1::nat) (0::nat) = 0"
proof -
  from demo_view obtain w
    where w: "InvertedCallerFlamegraphView keyLength 8 demoSetters demoState demoActive = Inr w"
    by blast
  have cc: "callerCallee (sandwichViewState demoActive) = Some demoCallerCallee"
    by (simp add: demoActive_def)
  have free: "''setSelectedNode'' \<notin> dom (invertedCallerFlamegraph demoCallerCallee)"
    "''setNodeHover'' \<notin> dom (invertedCallerFlamegraph demoCallerCallee)"
    by (simp_all add: demoCallerCallee_def)
  have idx: "index demoActive = 0" by (simp add: demoActive_def)
  have setter: "demoSetters 0 ''setSelectedNode'' = Some (Callback (\<lambda>v s. v))"
    by (simp add: demoSetters_def)
  note inst = setSelectedNode_noop [OF w cc free(1)]
  have sel: "otherProps w ''setSelectedNode'' = Some (Callback noop)"
    using inst [THEN conjunct1] .
  have unchanged: "noop (1::nat) (0::nat) = 0"
    using inst [THEN conjunct2, THEN conjunct1] by simp
  have hover: "otherProps w ''setNodeHover'' = demoSetters 0 ''setNodeHover''"
    using inst [THEN conjunct2, THEN conjunct2, rule_format, of "''setNodeHover''"] free(2) idx
    by simp
  from w sel hover have "\<exists>w. InvertedCallerFlamegraphView keyLength 8 demoSetters demoState demoActive = Inr w
        \<and> otherProps w ''setSelectedNode'' = Some (Callback noop)
        \<and> otherProps w ''setNodeHover'' = demoSetters 0 ''setNodeHover''"
    by (intro exI conjI)
  with cc free setter unchanged show ?thesis by (intro conjI)
qed

end
